theory Spec2Isabelle
  imports Complex_Main "HOL-Library.AList"
begin

section \<open>The exchange-rate service of currency-converter-be\<close>

text \<open>
  A shallow embedding of \<^verbatim>\<open>src/exchange-rates/exchange-rates.service.ts\<close> (class
  \<^verbatim>\<open>ExchangeRatesService\<close>) and of the two Prisma tables it works on
  (\<^verbatim>\<open>prisma/schema.prisma\<close>).

  \<^item> A JavaScript \<^verbatim>\<open>number\<close> is a rational: the arithmetic of the service is exact
    here, and rounding, \<^verbatim>\<open>NaN\<close> and the infinities of IEEE doubles are outside the model.
  \<^item> A \<^verbatim>\<open>Date\<close> is its time value, the milliseconds since the epoch, an integer;
    \<^verbatim>\<open>toISOString()\<close> is injective on dates and is left out.
  \<^item> A JavaScript object used as a dictionary (\<^verbatim>\<open>supportedRates\<close>,
    \<^verbatim>\<open>formattedRates\<close>) is an association list in insertion order: an assignment
    \<^verbatim>\<open>o[k] = v\<close> is \<open>AList.update k v o\<close>, a read \<^verbatim>\<open>o[k]\<close> is \<open>map_of o k\<close> with \<open>None\<close>
    for \<^verbatim>\<open>undefined\<close>.
  \<^item> Every \<^verbatim>\<open>await\<close> that can reject has its outcome chosen by the environment of the
    call (record \<open>env\<close>); an exception is the \<open>Inl\<close> of a sum.
  \<^item> The logger is left out.
\<close>

subsection \<open>Data\<close>

text \<open>Model \<^verbatim>\<open>ExchangeRate\<close> of the schema, unique on \<^verbatim>\<open>(baseCurrency, currency)\<close>. The
  surrogate key \<^verbatim>\<open>id\<close> is never read by the service and is left out. Fields carry the
  prefix \<open>er_\<close>.\<close>

record ExchangeRate =
  er_baseCurrency :: string
  er_currency :: string
  er_rate :: rat
  er_lastUpdated :: int

text \<open>Model \<^verbatim>\<open>Transaction\<close> of the schema; fields carry the prefix \<open>tx_\<close>.\<close>

record Transaction =
  tx_id :: int
  tx_userId :: int
  tx_fromCurrency :: string
  tx_toCurrency :: string
  tx_amount :: rat
  tx_convertedAmount :: rat
  tx_rate :: rat
  tx_createdAt :: int
  tx_updatedAt :: int

text \<open>The database (the tables behind \<^verbatim>\<open>prisma.exchangeRate\<close> and
  \<^verbatim>\<open>prisma.transaction\<close>), with the counter behind \<^verbatim>\<open>@default(autoincrement())\<close> of
  \<^verbatim>\<open>Transaction.id\<close>, and the number of requests sent to the provider so far.\<close>

record world =
  db_exchangeRate :: "ExchangeRate list"
  db_transaction :: "Transaction list"
  transactionSeq :: int
  providerCalls :: nat

text \<open>\<^verbatim>\<open>response.data\<close> of the provider: \<^verbatim>\<open>{base, rates, timestamp}\<close>, the timestamp in
  Unix seconds.\<close>

record api_data =
  data_base :: string
  data_rates :: "string \<rightharpoonup> rat"
  data_timestamp :: int

text \<open>What the outside does during one call: the clock of the service, whether
  \<^verbatim>\<open>exchangeRate.findMany\<close> rejects, what \<^verbatim>\<open>axios.get\<close> resolves to (\<open>None\<close> when it rejects:
  network, authentication, quota, or a body that is not of the shape above or whose
  timestamp gives an invalid \<^verbatim>\<open>Date\<close>), for which
  currencies \<^verbatim>\<open>exchangeRate.upsert\<close> rejects, whether \<^verbatim>\<open>transaction.create\<close> rejects
  (among others: no user with that id), and the clock behind \<^verbatim>\<open>@default(now())\<close>.\<close>

record env =
  now :: int
  findManyRejects :: bool
  response :: "api_data option"
  upsertRejects :: "string \<Rightarrow> bool"
  createRejects :: bool
  dbNow :: int

text \<open>The value \<^verbatim>\<open>{base, rates, timestamp}\<close> that \<^verbatim>\<open>getExchangeRates\<close> returns.\<close>

record rates_result =
  base :: string
  rates :: "(string \<times> rat) list"
  timestamp :: int

text \<open>The value that \<^verbatim>\<open>convertCurrency\<close> returns; fields carry the prefix \<open>res_\<close>.\<close>

record conversion_result =
  res_id :: int
  res_fromCurrency :: string
  res_toCurrency :: string
  res_amount :: rat
  res_convertedAmount :: rat
  res_exchangeRate :: rat
  res_timestamp :: int

text \<open>
  The exceptions. \<open>StorageError\<close> is a rejected Prisma call, \<open>ProviderError\<close> a rejected
  provider call. \<open>InternalServerErrorException\<close> is
  \<^verbatim>\<open>new InternalServerErrorException('Failed to fetch exchange rates')\<close>, the specification's
  RatesUnavailableError; \<open>Unsupported_currency\<close> is \<^verbatim>\<open>new Error('Unsupported currency')\<close>,
  its UnsupportedCurrencyError; \<open>Exchange_rate_not_available\<close> is
  \<^verbatim>\<open>new Error('Exchange rate not available')\<close>, its RateUnavailableError.
  \<open>Division_by_zero\<close> is no exception of the source: a JavaScript division by zero gives an
  infinity or \<^verbatim>\<open>NaN\<close>, which a rational cannot be, so the model marks the place.
\<close>

datatype error =
  StorageError
  | ProviderError
  | InternalServerErrorException
  | Unsupported_currency
  | Exchange_rate_not_available
  | Division_by_zero

subsection \<open>The service\<close>

definition baseCurrency :: string where
  "baseCurrency = ''USD''"

definition supportedCurrencies :: "string list" where
  "supportedCurrencies =
     [''USD'', ''EUR'', ''GBP'', ''JPY'', ''CAD'', ''AUD'', ''CHF'', ''CNY'', ''INR'', ''NGN'']"

definition cacheExpirationTime :: int where
  "cacheExpirationTime = 3600000"

text \<open>JavaScript truthiness of \<^verbatim>\<open>o[k]\<close> for a number or \<^verbatim>\<open>undefined\<close>: \<^verbatim>\<open>undefined\<close> and
  \<open>0\<close> are falsy.\<close>

fun truthy :: "rat option \<Rightarrow> bool" where
  "truthy None = False"
| "truthy (Some v) = (v \<noteq> 0)"

text \<open>\<^verbatim>\<open>findMany({where: {baseCurrency}, orderBy: {lastUpdated: 'desc'}})\<close>. The database
  leaves the order of rows of equal \<^verbatim>\<open>lastUpdated\<close> open; here they keep the order of the
  table.\<close>

definition getExchangeRatesFromDb :: "env \<Rightarrow> world \<Rightarrow> error + ExchangeRate list" where
  "getExchangeRatesFromDb e w =
     (if findManyRejects e then Inl StorageError
      else Inr (sort_key (\<lambda>r. - er_lastUpdated r)
                  (filter (\<lambda>r. er_baseCurrency r = baseCurrency) (db_exchangeRate w))))"

text \<open>The loop of \<^verbatim>\<open>formatExchangeRates\<close> and the function itself; on an empty list the
  timestamp is the current time.\<close>

fun formatLoop :: "ExchangeRate list \<Rightarrow> (string \<times> rat) list \<Rightarrow> (string \<times> rat) list" where
  "formatLoop [] formattedRates = formattedRates"
| "formatLoop (r # rs) formattedRates =
     formatLoop rs (AList.update (er_currency r) (er_rate r) formattedRates)"

definition formatExchangeRates :: "env \<Rightarrow> ExchangeRate list \<Rightarrow> rates_result" where
  "formatExchangeRates e rs =
     \<lparr>base = baseCurrency,
      rates = formatLoop rs [],
      timestamp = (case rs of [] \<Rightarrow> now e | r # _ \<Rightarrow> er_lastUpdated r)\<rparr>"

text \<open>The loop of \<^verbatim>\<open>fetchAndStoreExchangeRates\<close> that keeps the supported currencies with a
  truthy rate.\<close>

fun filterLoop :: "(string \<rightharpoonup> rat) \<Rightarrow> string list \<Rightarrow> (string \<times> rat) list \<Rightarrow> (string \<times> rat) list" where
  "filterLoop rs [] supportedRates = supportedRates"
| "filterLoop rs (c # cs) supportedRates =
     filterLoop rs cs
       (case rs c of
          None \<Rightarrow> supportedRates
        | Some v \<Rightarrow> if v \<noteq> 0 then AList.update c v supportedRates else supportedRates)"

text \<open>\<^verbatim>\<open>exchangeRate.upsert\<close> on the unique key \<^verbatim>\<open>(baseCurrency, currency)\<close>: the row with the
  key gets the new rate and time, and a new row is created when there is none.\<close>

fun upsert :: "string \<Rightarrow> string \<Rightarrow> rat \<Rightarrow> int \<Rightarrow> ExchangeRate list \<Rightarrow> ExchangeRate list" where
  "upsert b c v t [] =
     [\<lparr>er_baseCurrency = b, er_currency = c, er_rate = v, er_lastUpdated = t\<rparr>]"
| "upsert b c v t (r # rs) =
     (if er_baseCurrency r = b \<and> er_currency r = c
      then r\<lparr>er_rate := v, er_lastUpdated := t\<rparr> # rs
      else r # upsert b c v t rs)"

text \<open>The upserts of one batch, \<^verbatim>\<open>Object.entries(supportedRates).map(...)\<close>: all are
  issued, those that the store accepts take effect.\<close>

fun upsertAll :: "env \<Rightarrow> string \<Rightarrow> int \<Rightarrow> (string \<times> rat) list \<Rightarrow> ExchangeRate list \<Rightarrow> ExchangeRate list" where
  "upsertAll e b t [] tbl = tbl"
| "upsertAll e b t ((c, v) # es) tbl =
     upsertAll e b t es (if upsertRejects e c then tbl else upsert b c v t tbl)"

text \<open>\<^verbatim>\<open>fetchAndStoreExchangeRates\<close>: one request to the provider; \<^verbatim>\<open>Promise.all\<close> rejects
  when one upsert does, and the \<^verbatim>\<open>catch\<close> rethrows.\<close>

definition fetchAndStoreExchangeRates :: "env \<Rightarrow> world \<Rightarrow> (error + rates_result) \<times> world" where
  "fetchAndStoreExchangeRates e w =
     (let w1 = w\<lparr>providerCalls := providerCalls w + 1\<rparr> in
      case response e of
        None \<Rightarrow> (Inl ProviderError, w1)
      | Some d \<Rightarrow>
          let updateTime = data_timestamp d * 1000;
              supportedRates = filterLoop (data_rates d) supportedCurrencies [];
              w2 = w1\<lparr>db_exchangeRate :=
                        upsertAll e (data_base d) updateTime supportedRates (db_exchangeRate w1)\<rparr>
          in if list_ex (\<lambda>(c, v). upsertRejects e c) supportedRates
             then (Inl StorageError, w2)
             else (Inr \<lparr>base = data_base d, rates = supportedRates, timestamp = updateTime\<rparr>, w2))"

text \<open>\<^verbatim>\<open>getExchangeRates\<close>. The outer \<^verbatim>\<open>catch\<close> turns every exception into
  \<open>InternalServerErrorException\<close>.\<close>

definition getExchangeRates :: "env \<Rightarrow> world \<Rightarrow> (error + rates_result) \<times> world" where
  "getExchangeRates e w =
     (case getExchangeRatesFromDb e w of
        Inl err \<Rightarrow> (Inl InternalServerErrorException, w)
      | Inr cachedRates \<Rightarrow>
          if cachedRates \<noteq> [] \<and> now e - er_lastUpdated (hd cachedRates) < cacheExpirationTime
          then (Inr (formatExchangeRates e cachedRates), w)
          else (case fetchAndStoreExchangeRates e w of
                  (Inr res, w') \<Rightarrow> (Inr res, w')
                | (Inl apiError, w') \<Rightarrow>
                    if cachedRates \<noteq> [] then (Inr (formatExchangeRates e cachedRates), w')
                    else (Inl InternalServerErrorException, w')))"

text \<open>The two divisions of \<^verbatim>\<open>convertCurrency\<close>, with the zero divisor marked.\<close>

definition conversion :: "rat \<Rightarrow> rat \<Rightarrow> rat \<Rightarrow> (rat \<times> rat) option" where
  "conversion amount fromRate toRate =
     (if fromRate = 0 then None
      else let valueInBaseCurrency = amount / fromRate;
               convertedAmount = valueInBaseCurrency * toRate;
               exchangeRate = toRate / fromRate
           in Some (convertedAmount, exchangeRate))"

text \<open>\<^verbatim>\<open>transaction.create\<close>: the next id, both time columns at the clock of the store.\<close>

definition createTransaction ::
  "env \<Rightarrow> world \<Rightarrow> int \<Rightarrow> string \<Rightarrow> string \<Rightarrow> rat \<Rightarrow> rat \<Rightarrow> rat \<Rightarrow> (error + Transaction) \<times> world" where
  "createTransaction e w userId fromCurrency toCurrency amount convertedAmount rate =
     (if createRejects e then (Inl StorageError, w)
      else let t = \<lparr>tx_id = transactionSeq w + 1, tx_userId = userId,
                    tx_fromCurrency = fromCurrency, tx_toCurrency = toCurrency,
                    tx_amount = amount, tx_convertedAmount = convertedAmount, tx_rate = rate,
                    tx_createdAt = dbNow e, tx_updatedAt = dbNow e\<rparr>
           in (Inr t, w\<lparr>db_transaction := db_transaction w @ [t],
                        transactionSeq := transactionSeq w + 1\<rparr>))"

text \<open>\<^verbatim>\<open>convertCurrency\<close>.\<close>

definition convertCurrency ::
  "env \<Rightarrow> world \<Rightarrow> int \<Rightarrow> string \<Rightarrow> string \<Rightarrow> rat \<Rightarrow> (error + conversion_result) \<times> world" where
  "convertCurrency e w userId fromCurrency toCurrency amount =
     (if fromCurrency \<notin> set supportedCurrencies \<or> toCurrency \<notin> set supportedCurrencies
      then (Inl Unsupported_currency, w)
      else case getExchangeRates e w of
        (Inl err, w') \<Rightarrow> (Inl err, w')
      | (Inr rs, w') \<Rightarrow>
          let fromRate = map_of (rates rs) fromCurrency;
              toRate = map_of (rates rs) toCurrency
          in if \<not> truthy fromRate \<or> \<not> truthy toRate
             then (Inl Exchange_rate_not_available, w')
             else case conversion amount (the fromRate) (the toRate) of
               None \<Rightarrow> (Inl Division_by_zero, w')
             | Some (convertedAmount, exchangeRate) \<Rightarrow>
                 (case createTransaction e w' userId fromCurrency toCurrency amount
                         convertedAmount exchangeRate of
                    (Inl err, w'') \<Rightarrow> (Inl err, w'')
                  | (Inr t, w'') \<Rightarrow>
                      (Inr \<lparr>res_id = tx_id t, res_fromCurrency = fromCurrency,
                            res_toCurrency = toCurrency, res_amount = amount,
                            res_convertedAmount = convertedAmount,
                            res_exchangeRate = exchangeRate,
                            res_timestamp = tx_createdAt t\<rparr>, w'')))"

subsection \<open>The transaction listing\<close>

text \<open>Modelled from the spec: \<^verbatim>\<open>UserService.getUserTransactions\<close>, which
  \<^verbatim>\<open>UserController.getUserTransactions\<close> calls with \<^verbatim>\<open>req.user.id\<close>; the file
  \<^verbatim>\<open>src/user/user.service.ts\<close> is not among the sources. The specification says that a
  Transaction is visible only to the user of its \<^verbatim>\<open>userId\<close> and that a listing never
  includes another user's rows: the listing of a user is the rows of the table with that
  \<^verbatim>\<open>userId\<close>.\<close>

definition getUserTransactions :: "world \<Rightarrow> int \<Rightarrow> Transaction list" where
  "getUserTransactions w userId = filter (\<lambda>t. tx_userId t = userId) (db_transaction w)"

text \<open>One request \<^verbatim>\<open>POST exchange-rates/convert\<close> as the controller hands it to the
  service, with the environment it runs in; and a sequence of such requests, one after
  the other, whatever their results.\<close>

record call =
  call_env :: env
  call_userId :: int
  call_fromCurrency :: string
  call_toCurrency :: string
  call_amount :: rat

fun conversions :: "world \<Rightarrow> call list \<Rightarrow> world" where
  "conversions w [] = w"
| "conversions w (c # cs) =
     conversions
       (snd (convertCurrency (call_env c) w (call_userId c) (call_fromCurrency c)
               (call_toCurrency c) (call_amount c))) cs"

subsection \<open>Sample data\<close>

text \<open>A store with two snapshots of the same time, an empty store, and environments at
  thirty minutes and at two hours after that time.\<close>

definition sampleTime :: int where
  "sampleTime = 1700000000000"

definition sampleStore :: world where
  "sampleStore =
     \<lparr>db_exchangeRate =
        [\<lparr>er_baseCurrency = ''USD'', er_currency = ''USD'', er_rate = 1,
          er_lastUpdated = sampleTime\<rparr>,
         \<lparr>er_baseCurrency = ''USD'', er_currency = ''EUR'', er_rate = 93 / 100,
          er_lastUpdated = sampleTime\<rparr>],
      db_transaction = [], transactionSeq = 0, providerCalls = 0\<rparr>"

text \<open>A store in which the snapshot of GBP has the rate \<open>0\<close>.\<close>

definition zeroRateStore :: world where
  "zeroRateStore =
     \<lparr>db_exchangeRate =
        [\<lparr>er_baseCurrency = ''USD'', er_currency = ''USD'', er_rate = 1,
          er_lastUpdated = sampleTime\<rparr>,
         \<lparr>er_baseCurrency = ''USD'', er_currency = ''GBP'', er_rate = 0,
          er_lastUpdated = sampleTime\<rparr>],
      db_transaction = [], transactionSeq = 0, providerCalls = 0\<rparr>"

definition emptyStore :: world where
  "emptyStore = \<lparr>db_exchangeRate = [], db_transaction = [], transactionSeq = 0, providerCalls = 0\<rparr>"

definition sampleEnv :: "int \<Rightarrow> api_data option \<Rightarrow> env" where
  "sampleEnv elapsed d =
     \<lparr>now = sampleTime + elapsed, findManyRejects = False, response = d,
      upsertRejects = (\<lambda>c. False), createRejects = False, dbNow = sampleTime + elapsed + 5\<rparr>"

definition halfHour :: int where
  "halfHour = 1800000"

definition twoHours :: int where
  "twoHours = 7200000"


definition eurData :: api_data where
  "eurData = \<lparr>data_base = ''EUR'', data_rates = [''USD'' \<mapsto> 27 / 25, ''EUR'' \<mapsto> 1],
               data_timestamp = 1700007000\<rparr>"

definition xauData :: api_data where
  "xauData = \<lparr>data_base = ''USD'', data_rates = [''XAU'' \<mapsto> 1 / 2000],
               data_timestamp = 1700007000\<rparr>"

section \<open>Properties\<close>

subsection \<open>The store read and the two loops\<close>

lemma hd_getExchangeRatesFromDb:
  assumes "xs \<noteq> []"
  shows "er_lastUpdated (hd (sort_key (\<lambda>r. - er_lastUpdated r) xs)) = Max (er_lastUpdated ` set xs)"
proof -
  let ?f = "\<lambda>r. - er_lastUpdated r"
  let ?ys = "sort_key ?f xs"
  from assms have "?ys \<noteq> []"
    by (metis length_sort length_0_conv)
  then obtain y ys' where ys: "?ys = y # ys'"
    by (cases ?ys) auto
  have "sorted (map ?f ?ys)"
    by (rule sorted_sort_key)
  with ys have le: "\<forall>z\<in>set ys'. er_lastUpdated z \<le> er_lastUpdated y"
    by simp
  have set_eq: "set xs = insert y (set ys')"
    using ys set_sort [of ?f xs] by simp
  have "Max (er_lastUpdated ` set xs) = er_lastUpdated y"
  proof (rule Max_eqI)
    show "finite (er_lastUpdated ` set xs)" by simp
    show "er_lastUpdated y \<in> er_lastUpdated ` set xs" using set_eq by simp
    fix v assume "v \<in> er_lastUpdated ` set xs"
    then show "v \<le> er_lastUpdated y" using set_eq le by auto
  qed
  with ys show ?thesis by simp
qed

lemma map_of_formatLoop:
  "map_of (formatLoop rs acc) = map_of acc ++ map_of (rev (map (\<lambda>r. (er_currency r, er_rate r)) rs))"
  by (induction rs arbitrary: acc) (simp_all add: update_conv' map_add_upd_left)

lemma map_of_formatLoop_distinct:
  assumes "distinct (map er_currency rs)"
  shows "map_of (formatLoop rs []) c = Some v \<longleftrightarrow> (\<exists>r\<in>set rs. er_currency r = c \<and> er_rate r = v)"
proof -
  let ?kv = "rev (map (\<lambda>r. (er_currency r, er_rate r)) rs)"
  have "distinct (map fst ?kv)"
    using assms by (simp add: rev_map [symmetric] comp_def)
  then have "map_of ?kv c = Some v \<longleftrightarrow> (c, v) \<in> set ?kv"
    by (rule map_of_eq_Some_iff)
  then show ?thesis
    by (auto simp: map_of_formatLoop)
qed

lemma map_of_filterLoop:
  "map_of (filterLoop rs cs acc) c =
     (if c \<in> set cs \<and> truthy (rs c) then rs c else map_of acc c)"
  by (induction cs arbitrary: acc) (auto simp: update_conv' split: option.splits)

lemma getExchangeRates_transaction:
  "db_transaction (snd (getExchangeRates e w)) = db_transaction w \<and>
   transactionSeq (snd (getExchangeRates e w)) = transactionSeq w"
  by (auto simp: getExchangeRates_def fetchAndStoreExchangeRates_def Let_def
      split: sum.splits option.splits prod.splits if_splits)

subsection \<open>The cache policy\<close>

text \<open>
  Claim C2. When the store can be read, holds at least one snapshot for the base currency
  and the newest \<^verbatim>\<open>lastUpdated\<close> among them is less than \<open>cacheExpirationTime\<close>
  (3,600,000 ms) before the current time, \<open>getExchangeRates\<close> returns the formatted cached
  set: base \<^verbatim>\<open>USD\<close>, the newest \<^verbatim>\<open>lastUpdated\<close> as timestamp, and, the currencies of the
  snapshots being distinct, exactly their currency-rate pairs. The world is the one
  before the call: the provider has not been called and nothing has been written.
\<close>

theorem getExchangeRates_fresh_cache:
  assumes "\<not> findManyRejects e"
    and "cached = filter (\<lambda>r. er_baseCurrency r = baseCurrency) (db_exchangeRate w)"
    and "cached \<noteq> []"
    and "now e - Max (er_lastUpdated ` set cached) < cacheExpirationTime"
  shows "getExchangeRates e w = (Inr (formatExchangeRates e (sort_key (\<lambda>r. - er_lastUpdated r) cached)), w) \<and>
         providerCalls (snd (getExchangeRates e w)) = providerCalls w \<and>
         db_exchangeRate (snd (getExchangeRates e w)) = db_exchangeRate w \<and>
         (\<exists>res. fst (getExchangeRates e w) = Inr res \<and>
            base res = baseCurrency \<and>
            timestamp res = Max (er_lastUpdated ` set cached) \<and>
            (distinct (map er_currency cached) \<longrightarrow>
               (\<forall>c v. map_of (rates res) c = Some v \<longleftrightarrow>
                  (\<exists>r\<in>set cached. er_currency r = c \<and> er_rate r = v))))"
proof -
  let ?rs = "sort_key (\<lambda>r. - er_lastUpdated r) cached"
  have db: "getExchangeRatesFromDb e w = Inr ?rs"
    using assms(1,2) by (simp add: getExchangeRatesFromDb_def)
  have ne: "?rs \<noteq> []"
    using assms(3) by (metis length_sort length_0_conv)
  have hd: "er_lastUpdated (hd ?rs) = Max (er_lastUpdated ` set cached)"
    using assms(3) by (rule hd_getExchangeRatesFromDb)
  have res: "getExchangeRates e w = (Inr (formatExchangeRates e ?rs), w)"
    using db ne hd assms(4) by (simp add: getExchangeRates_def)
  have ts: "timestamp (formatExchangeRates e ?rs) = Max (er_lastUpdated ` set cached)"
    using ne hd by (cases ?rs) (simp_all add: formatExchangeRates_def)
  have mp: "map_of (rates (formatExchangeRates e ?rs)) c = Some v \<longleftrightarrow>
              (\<exists>r\<in>set cached. er_currency r = c \<and> er_rate r = v)"
    if "distinct (map er_currency cached)" for c v
  proof -
    have "distinct (map er_currency ?rs)"
      using that by (metis distinct_map distinct_sort set_sort)
    then show ?thesis
      using map_of_formatLoop_distinct [of ?rs c v] by (simp add: formatExchangeRates_def)
  qed
  show ?thesis
    using res ts mp by (simp add: formatExchangeRates_def)
qed

theorem getExchangeRates_fresh_cache_witness:
  "\<not> findManyRejects (sampleEnv halfHour None) \<and>
   filter (\<lambda>r. er_baseCurrency r = baseCurrency) (db_exchangeRate sampleStore) \<noteq> [] \<and>
   now (sampleEnv halfHour None) - Max (er_lastUpdated ` set (db_exchangeRate sampleStore)) < cacheExpirationTime \<and>
   getExchangeRates (sampleEnv halfHour None) sampleStore =
     (Inr \<lparr>base = ''USD'', rates = [(''USD'', 1), (''EUR'', 93 / 100)], timestamp = sampleTime\<rparr>,
      sampleStore)"
  using getExchangeRates_fresh_cache [of "sampleEnv halfHour None" "db_exchangeRate sampleStore" sampleStore]
  by (simp add: sampleEnv_def sampleStore_def halfHour_def baseCurrency_def cacheExpirationTime_def formatExchangeRates_def)

text \<open>The fetch throws when the provider request is rejected or when the store rejects
  the upsert of one of the rates kept by the filter.\<close>

lemma fetchAndStoreExchangeRates_fails_iff:
  "(\<exists>err. fst (fetchAndStoreExchangeRates e w) = Inl err) \<longleftrightarrow>
     (case response e of
        None \<Rightarrow> True
      | Some d \<Rightarrow> \<exists>c\<in>fst ` set (filterLoop (data_rates d) supportedCurrencies []). upsertRejects e c)"
  by (auto simp: fetchAndStoreExchangeRates_def Let_def list_ex_iff split: option.splits) force



subsection \<open>The conversion\<close>

text \<open>What a successful call of \<open>convertCurrency\<close> has done.\<close>

lemma truthy_iff: "truthy x \<longleftrightarrow> (\<exists>v. x = Some v \<and> v \<noteq> 0)"
  by (cases x) auto

lemma convertCurrency_Inr:
  assumes "convertCurrency e w userId fromCurrency toCurrency amount = (Inr res, w'')"
  obtains rs w' fromRate toRate t where
    "fromCurrency \<in> set supportedCurrencies" "toCurrency \<in> set supportedCurrencies"
    "getExchangeRates e w = (Inr rs, w')"
    "map_of (rates rs) fromCurrency = Some fromRate" "fromRate \<noteq> 0"
    "map_of (rates rs) toCurrency = Some toRate" "toRate \<noteq> 0"
    "\<not> createRejects e"
    "t = \<lparr>tx_id = transactionSeq w' + 1, tx_userId = userId,
          tx_fromCurrency = fromCurrency, tx_toCurrency = toCurrency,
          tx_amount = amount, tx_convertedAmount = amount / fromRate * toRate,
          tx_rate = toRate / fromRate,
          tx_createdAt = dbNow e, tx_updatedAt = dbNow e\<rparr>"
    "w'' = w'\<lparr>db_transaction := db_transaction w' @ [t], transactionSeq := transactionSeq w' + 1\<rparr>"
    "res = \<lparr>res_id = tx_id t, res_fromCurrency = fromCurrency,
            res_toCurrency = toCurrency, res_amount = amount,
            res_convertedAmount = amount / fromRate * toRate,
            res_exchangeRate = toRate / fromRate,
            res_timestamp = tx_createdAt t\<rparr>"
  using assms
  by (auto simp: convertCurrency_def conversion_def createTransaction_def Let_def truthy_iff
      split: if_splits sum.splits prod.splits option.splits)



text \<open>
  Claim C4. A call with a currency outside \<open>supportedCurrencies\<close> fails with
  \<open>Unsupported_currency\<close> and leaves the world as it was. A call with supported currencies
  of which one is absent from the rate mapping that \<open>getExchangeRates\<close> returned fails with
  \<open>Exchange_rate_not_available\<close>. Whatever the failure of a call, the transaction table
  and its id counter are those before the call.
\<close>

theorem convertCurrency_failures_create_nothing:
  "(fromCurrency \<notin> set supportedCurrencies \<or> toCurrency \<notin> set supportedCurrencies \<longrightarrow>
      convertCurrency e w userId fromCurrency toCurrency amount = (Inl Unsupported_currency, w)) \<and>
   (\<forall>rs w'. fromCurrency \<in> set supportedCurrencies \<and> toCurrency \<in> set supportedCurrencies \<and>
      getExchangeRates e w = (Inr rs, w') \<and>
      (map_of (rates rs) fromCurrency = None \<or> map_of (rates rs) toCurrency = None) \<longrightarrow>
      convertCurrency e w userId fromCurrency toCurrency amount = (Inl Exchange_rate_not_available, w')) \<and>
   (\<forall>err. fst (convertCurrency e w userId fromCurrency toCurrency amount) = Inl err \<longrightarrow>
      db_transaction (snd (convertCurrency e w userId fromCurrency toCurrency amount)) = db_transaction w \<and>
      transactionSeq (snd (convertCurrency e w userId fromCurrency toCurrency amount)) = transactionSeq w)"
proof (intro conjI allI impI)
  assume "fromCurrency \<notin> set supportedCurrencies \<or> toCurrency \<notin> set supportedCurrencies"
  then show "convertCurrency e w userId fromCurrency toCurrency amount = (Inl Unsupported_currency, w)"
    by (auto simp: convertCurrency_def)
next
  fix rs w'
  assume "fromCurrency \<in> set supportedCurrencies \<and> toCurrency \<in> set supportedCurrencies \<and>
      getExchangeRates e w = (Inr rs, w') \<and>
      (map_of (rates rs) fromCurrency = None \<or> map_of (rates rs) toCurrency = None)"
  then show "convertCurrency e w userId fromCurrency toCurrency amount = (Inl Exchange_rate_not_available, w')"
    by (auto simp: convertCurrency_def)
next
  fix err
  assume a: "fst (convertCurrency e w userId fromCurrency toCurrency amount) = Inl err"
  have g: "db_transaction (snd (getExchangeRates e w)) = db_transaction w"
    "transactionSeq (snd (getExchangeRates e w)) = transactionSeq w"
    using getExchangeRates_transaction [of e w] by simp_all
  obtain r w' where gw: "getExchangeRates e w = (r, w')"
    by (cases "getExchangeRates e w")
  from a g gw show "db_transaction (snd (convertCurrency e w userId fromCurrency toCurrency amount)) = db_transaction w"
    by (auto simp: convertCurrency_def conversion_def createTransaction_def Let_def
        split: if_splits sum.splits option.splits)
  from a g gw show "transactionSeq (snd (convertCurrency e w userId fromCurrency toCurrency amount)) = transactionSeq w"
    by (auto simp: convertCurrency_def conversion_def createTransaction_def Let_def
        split: if_splits sum.splits option.splits)
qed

theorem convertCurrency_failures_create_nothing_witness:
  "''XYZ'' \<notin> set supportedCurrencies \<and>
   convertCurrency (sampleEnv halfHour None) sampleStore 7 ''XYZ'' ''EUR'' 100 =
     (Inl Unsupported_currency, sampleStore) \<and>
   ''USD'' \<in> set supportedCurrencies \<and> ''GBP'' \<in> set supportedCurrencies \<and>
   getExchangeRates (sampleEnv halfHour None) sampleStore =
     (Inr \<lparr>base = ''USD'', rates = [(''USD'', 1), (''EUR'', 93 / 100)], timestamp = sampleTime\<rparr>,
      sampleStore) \<and>
   map_of [(''USD'', 1::rat), (''EUR'', 93 / 100)] ''GBP'' = None \<and>
   convertCurrency (sampleEnv halfHour None) sampleStore 7 ''USD'' ''GBP'' 100 =
     (Inl Exchange_rate_not_available, sampleStore) \<and>
   db_transaction (snd (convertCurrency (sampleEnv halfHour None) sampleStore 7 ''USD'' ''GBP'' 100)) =
     db_transaction sampleStore"
  using convertCurrency_failures_create_nothing [of "''XYZ''" "''EUR''" "sampleEnv halfHour None" sampleStore 7 100]
    convertCurrency_failures_create_nothing [of "''USD''" "''GBP''" "sampleEnv halfHour None" sampleStore 7 100]
  by (simp add: supportedCurrencies_def getExchangeRates_def
      getExchangeRatesFromDb_def formatExchangeRates_def
      sampleEnv_def sampleStore_def halfHour_def baseCurrency_def cacheExpirationTime_def)

text \<open>
  Claim C6. A successful call of \<open>convertCurrency\<close> appends exactly one row to the
  transaction table. The row has the \<open>userId\<close> of the call, and its currencies, amount,
  converted amount and rate are those of the returned result; the result's \<open>id\<close> and
  \<open>timestamp\<close> are the row's \<open>id\<close> and \<open>createdAt\<close>.
\<close>

theorem convertCurrency_records_transaction:
  assumes "convertCurrency e w userId fromCurrency toCurrency amount = (Inr res, w')"
  shows "\<exists>t. db_transaction w' = db_transaction w @ [t] \<and>
           tx_userId t = userId \<and>
           tx_fromCurrency t = fromCurrency \<and> res_fromCurrency res = fromCurrency \<and>
           tx_toCurrency t = toCurrency \<and> res_toCurrency res = toCurrency \<and>
           tx_amount t = amount \<and> res_amount res = amount \<and>
           tx_convertedAmount t = res_convertedAmount res \<and>
           tx_rate t = res_exchangeRate res \<and>
           res_id res = tx_id t \<and>
           res_timestamp res = tx_createdAt t"
proof -
  from assms obtain rs w1 fromRate toRate t where
    g: "getExchangeRates e w = (Inr rs, w1)"
    and t: "t = \<lparr>tx_id = transactionSeq w1 + 1, tx_userId = userId,
          tx_fromCurrency = fromCurrency, tx_toCurrency = toCurrency,
          tx_amount = amount, tx_convertedAmount = amount / fromRate * toRate,
          tx_rate = toRate / fromRate,
          tx_createdAt = dbNow e, tx_updatedAt = dbNow e\<rparr>"
    and w': "w' = w1\<lparr>db_transaction := db_transaction w1 @ [t], transactionSeq := transactionSeq w1 + 1\<rparr>"
    and res: "res = \<lparr>res_id = tx_id t, res_fromCurrency = fromCurrency,
            res_toCurrency = toCurrency, res_amount = amount,
            res_convertedAmount = amount / fromRate * toRate,
            res_exchangeRate = toRate / fromRate,
            res_timestamp = tx_createdAt t\<rparr>"
    by (rule convertCurrency_Inr)
  have "db_transaction w1 = db_transaction w"
    using getExchangeRates_transaction [of e w] g by simp
  then have "db_transaction w' = db_transaction w @ [t]"
    using w' by simp
  then show ?thesis
    using t res by (intro exI [of _ t]) simp
qed

theorem convertCurrency_records_transaction_witness:
  "convertCurrency (sampleEnv halfHour None) sampleStore 7 ''USD'' ''EUR'' 100 =
     (Inr \<lparr>res_id = 1, res_fromCurrency = ''USD'', res_toCurrency = ''EUR'', res_amount = 100,
           res_convertedAmount = 93, res_exchangeRate = 93 / 100,
           res_timestamp = sampleTime + halfHour + 5\<rparr>,
      sampleStore\<lparr>db_transaction :=
        [\<lparr>tx_id = 1, tx_userId = 7, tx_fromCurrency = ''USD'', tx_toCurrency = ''EUR'',
          tx_amount = 100, tx_convertedAmount = 93, tx_rate = 93 / 100,
          tx_createdAt = sampleTime + halfHour + 5, tx_updatedAt = sampleTime + halfHour + 5\<rparr>],
        transactionSeq := 1\<rparr>) \<and>
   (\<exists>t. [\<lparr>tx_id = 1, tx_userId = 7, tx_fromCurrency = ''USD'', tx_toCurrency = ''EUR'',
          tx_amount = 100, tx_convertedAmount = 93, tx_rate = 93 / 100,
          tx_createdAt = sampleTime + halfHour + 5, tx_updatedAt = sampleTime + halfHour + 5\<rparr>] =
        db_transaction sampleStore @ [t] \<and> tx_userId t = 7 \<and> tx_id t = 1)"
proof -
  let ?e = "sampleEnv halfHour None"
  let ?t = "\<lparr>tx_id = 1, tx_userId = 7, tx_fromCurrency = ''USD'', tx_toCurrency = ''EUR'',
          tx_amount = 100, tx_convertedAmount = 93, tx_rate = 93 / 100,
          tx_createdAt = sampleTime + halfHour + 5, tx_updatedAt = sampleTime + halfHour + 5\<rparr>"
  let ?res = "\<lparr>res_id = 1, res_fromCurrency = ''USD'', res_toCurrency = ''EUR'', res_amount = 100,
           res_convertedAmount = 93, res_exchangeRate = 93 / 100,
           res_timestamp = sampleTime + halfHour + 5\<rparr>"
  let ?w' = "sampleStore\<lparr>db_transaction := [?t], transactionSeq := 1\<rparr>"
  have c: "convertCurrency ?e sampleStore 7 ''USD'' ''EUR'' 100 = (Inr ?res, ?w')"
    by (simp add: convertCurrency_def supportedCurrencies_def getExchangeRates_def
        getExchangeRatesFromDb_def formatExchangeRates_def conversion_def createTransaction_def
        Let_def sampleEnv_def sampleStore_def halfHour_def baseCurrency_def
        cacheExpirationTime_def)
  from convertCurrency_records_transaction [OF c]
  have "\<exists>t. [?t] = db_transaction sampleStore @ [t] \<and> tx_userId t = 7 \<and> tx_id t = 1"
    by auto
  with c show ?thesis by simp
qed

text \<open>If no stored rate is \<open>0\<close>, no rate that \<open>getExchangeRates\<close> returns is \<open>0\<close>: a cached
  rate is a stored one, and the filter of the fetch keeps truthy rates only.\<close>

lemma getExchangeRates_rates_nonzero:
  assumes "\<forall>r\<in>set (db_exchangeRate w). er_rate r \<noteq> 0"
    and "fst (getExchangeRates e w) = Inr rs"
    and "map_of (rates rs) c = Some v"
  shows "v \<noteq> 0"
proof -
  have cached: "v \<noteq> 0" if "getExchangeRatesFromDb e w = Inr rows"
    "map_of (formatLoop rows []) c = Some v" for rows
  proof -
    from that(2) have "(c, v) \<in> set (rev (map (\<lambda>r. (er_currency r, er_rate r)) rows))"
      by (auto simp: map_of_formatLoop dest: map_of_SomeD)
    then obtain r where "r \<in> set rows" "er_rate r = v" by auto
    moreover have "set rows \<subseteq> set (db_exchangeRate w)"
      using that(1) by (auto simp: getExchangeRatesFromDb_def split: if_splits)
    ultimately show ?thesis using assms(1) by auto
  qed
  have fetched: "v \<noteq> 0" if "map_of (filterLoop m supportedCurrencies []) c = Some v" for m
    using that by (auto simp: map_of_filterLoop truthy_iff split: if_splits)
  show ?thesis
    using assms(2,3) cached fetched
    by (auto simp: getExchangeRates_def fetchAndStoreExchangeRates_def formatExchangeRates_def
        Let_def split: sum.splits if_splits option.splits prod.splits)
qed

text \<open>The only exception of \<open>getExchangeRates\<close> is the one of its outer \<^verbatim>\<open>catch\<close>.\<close>

lemma getExchangeRates_error:
  "fst (getExchangeRates e w) = Inl x \<Longrightarrow> x = InternalServerErrorException"
  by (auto simp: getExchangeRates_def split: sum.splits prod.splits if_splits)

text \<open>
  Claim C10. No call of \<open>convertCurrency\<close> reaches a division by zero. With supported
  currencies, a rate that is absent from the returned mapping or is \<open>0\<close>, for either
  currency, ends the call with \<open>Exchange_rate_not_available\<close> in the world that
  \<open>getExchangeRates\<close> left, before any arithmetic. If every stored rate is positive, a call
  whose two currencies are in the returned mapping does not end with that error.
\<close>

theorem convertCurrency_never_divides_by_zero:
  "fst (convertCurrency e w userId fromCurrency toCurrency amount) \<noteq> Inl Division_by_zero \<and>
   (\<forall>rs w'. fromCurrency \<in> set supportedCurrencies \<and> toCurrency \<in> set supportedCurrencies \<and>
      getExchangeRates e w = (Inr rs, w') \<and>
      (map_of (rates rs) fromCurrency = None \<or> map_of (rates rs) fromCurrency = Some 0 \<or>
       map_of (rates rs) toCurrency = None \<or> map_of (rates rs) toCurrency = Some 0) \<longrightarrow>
      convertCurrency e w userId fromCurrency toCurrency amount =
        (Inl Exchange_rate_not_available, w')) \<and>
   (\<forall>rs fromRate toRate.
      (\<forall>r\<in>set (db_exchangeRate w). 0 < er_rate r) \<and>
      fst (getExchangeRates e w) = Inr rs \<and>
      map_of (rates rs) fromCurrency = Some fromRate \<and>
      map_of (rates rs) toCurrency = Some toRate \<longrightarrow>
      fst (convertCurrency e w userId fromCurrency toCurrency amount) \<noteq>
        Inl Exchange_rate_not_available)"
proof (intro conjI allI impI)
  show "fst (convertCurrency e w userId fromCurrency toCurrency amount) \<noteq> Inl Division_by_zero"
    using getExchangeRates_error [of e w Division_by_zero]
    by (cases "getExchangeRates e w")
      (auto simp: convertCurrency_def conversion_def createTransaction_def Let_def truthy_iff
        split: sum.splits prod.splits if_splits)
next
  fix rs w'
  assume "fromCurrency \<in> set supportedCurrencies \<and> toCurrency \<in> set supportedCurrencies \<and>
      getExchangeRates e w = (Inr rs, w') \<and>
      (map_of (rates rs) fromCurrency = None \<or> map_of (rates rs) fromCurrency = Some 0 \<or>
       map_of (rates rs) toCurrency = None \<or> map_of (rates rs) toCurrency = Some 0)"
  then show "convertCurrency e w userId fromCurrency toCurrency amount =
        (Inl Exchange_rate_not_available, w')"
    by (auto simp: convertCurrency_def)
next
  fix rs fromRate toRate
  assume a: "(\<forall>r\<in>set (db_exchangeRate w). 0 < er_rate r) \<and>
      fst (getExchangeRates e w) = Inr rs \<and>
      map_of (rates rs) fromCurrency = Some fromRate \<and>
      map_of (rates rs) toCurrency = Some toRate"
  then have nz: "\<forall>r\<in>set (db_exchangeRate w). er_rate r \<noteq> 0"
    by auto
  from a have "fromRate \<noteq> 0" "toRate \<noteq> 0"
    using getExchangeRates_rates_nonzero [OF nz] by blast+
  with a show "fst (convertCurrency e w userId fromCurrency toCurrency amount) \<noteq>
        Inl Exchange_rate_not_available"
    by (cases "getExchangeRates e w")
      (auto simp: convertCurrency_def conversion_def createTransaction_def Let_def
        split: sum.splits prod.splits if_splits)
qed

theorem convertCurrency_never_divides_by_zero_witness:
  "getExchangeRates (sampleEnv halfHour None) zeroRateStore =
     (Inr \<lparr>base = ''USD'', rates = [(''USD'', 1), (''GBP'', 0)], timestamp = sampleTime\<rparr>,
      zeroRateStore) \<and>
   convertCurrency (sampleEnv halfHour None) zeroRateStore 7 ''GBP'' ''USD'' 100 =
     (Inl Exchange_rate_not_available, zeroRateStore) \<and>
   list_all (\<lambda>r. 0 < er_rate r) (db_exchangeRate sampleStore) \<and>
   fst (getExchangeRates (sampleEnv halfHour None) sampleStore) =
     Inr \<lparr>base = ''USD'', rates = [(''USD'', 1), (''EUR'', 93 / 100)], timestamp = sampleTime\<rparr> \<and>
   fst (convertCurrency (sampleEnv halfHour None) sampleStore 7 ''USD'' ''EUR'' 100) \<noteq>
     Inl Exchange_rate_not_available"
proof -
  let ?e = "sampleEnv halfHour None"
  have g0: "getExchangeRates ?e zeroRateStore =
     (Inr \<lparr>base = ''USD'', rates = [(''USD'', 1), (''GBP'', 0)], timestamp = sampleTime\<rparr>,
      zeroRateStore)"
    by (simp add: getExchangeRates_def getExchangeRatesFromDb_def formatExchangeRates_def
        sampleEnv_def zeroRateStore_def halfHour_def baseCurrency_def cacheExpirationTime_def)
  have g1: "fst (getExchangeRates ?e sampleStore) =
     Inr \<lparr>base = ''USD'', rates = [(''USD'', 1), (''EUR'', 93 / 100)], timestamp = sampleTime\<rparr>"
    by (simp add: getExchangeRates_def getExchangeRatesFromDb_def formatExchangeRates_def
        sampleEnv_def sampleStore_def halfHour_def baseCurrency_def cacheExpirationTime_def)
  have pos: "\<forall>r\<in>set (db_exchangeRate sampleStore). 0 < er_rate r"
    by (simp add: sampleStore_def)
  have "convertCurrency ?e zeroRateStore 7 ''GBP'' ''USD'' 100 =
     (Inl Exchange_rate_not_available, zeroRateStore)"
    using convertCurrency_never_divides_by_zero [of ?e zeroRateStore 7 "''GBP''" "''USD''" 100] g0
    by (simp add: supportedCurrencies_def)
  moreover have "fst (convertCurrency ?e sampleStore 7 ''USD'' ''EUR'' 100) \<noteq>
     Inl Exchange_rate_not_available"
  proof -
    let ?rs = "\<lparr>base = ''USD'', rates = [(''USD'', 1::rat), (''EUR'', 93 / 100)], timestamp = sampleTime\<rparr>"
    have m: "map_of (rates ?rs) ''USD'' = Some 1" "map_of (rates ?rs) ''EUR'' = Some (93 / 100)"
      by simp_all
    show ?thesis
      using convertCurrency_never_divides_by_zero [of ?e sampleStore 7 "''USD''" "''EUR''" 100] g1 pos m
      by blast
  qed
  ultimately show ?thesis
    using g0 g1 pos by (simp add: list_all_iff)
qed



subsection \<open>The fetch\<close>

text \<open>
  Claim C8. Let the store read succeed without a fresh snapshot, so that the provider is
  asked, and let the provider answer with a body of which the filter keeps no rate. Then
  \<open>getExchangeRates\<close> succeeds with the provider's base and time and an empty rate list;
  the store is not written. The missing rates show at conversion time: every conversion
  between supported currencies in that situation fails with
  \<open>Exchange_rate_not_available\<close>.
\<close>

theorem getExchangeRates_no_supported_rates:
  assumes "getExchangeRatesFromDb e w = Inr cached"
    and "cached = [] \<or> cacheExpirationTime \<le> now e - er_lastUpdated (hd cached)"
    and "response e = Some d"
    and "filterLoop (data_rates d) supportedCurrencies [] = []"
  shows "getExchangeRates e w =
           (Inr \<lparr>base = data_base d, rates = [], timestamp = data_timestamp d * 1000\<rparr>,
            w\<lparr>providerCalls := providerCalls w + 1\<rparr>) \<and>
         (\<forall>userId fromCurrency toCurrency amount.
            fromCurrency \<in> set supportedCurrencies \<and> toCurrency \<in> set supportedCurrencies \<longrightarrow>
            convertCurrency e w userId fromCurrency toCurrency amount =
              (Inl Exchange_rate_not_available, w\<lparr>providerCalls := providerCalls w + 1\<rparr>))"
proof -
  have f: "fetchAndStoreExchangeRates e w =
      (Inr \<lparr>base = data_base d, rates = [], timestamp = data_timestamp d * 1000\<rparr>,
       w\<lparr>providerCalls := providerCalls w + 1\<rparr>)"
    using assms(3,4) by (simp add: fetchAndStoreExchangeRates_def)
  have g: "getExchangeRates e w =
      (Inr \<lparr>base = data_base d, rates = [], timestamp = data_timestamp d * 1000\<rparr>,
       w\<lparr>providerCalls := providerCalls w + 1\<rparr>)"
    using assms(1,2) f by (auto simp: getExchangeRates_def)
  then show ?thesis
    by (simp add: convertCurrency_def)
qed

theorem getExchangeRates_no_supported_rates_witness:
  "getExchangeRatesFromDb (sampleEnv twoHours (Some xauData)) emptyStore = Inr [] \<and>
   response (sampleEnv twoHours (Some xauData)) = Some xauData \<and>
   filterLoop (data_rates xauData) supportedCurrencies [] = [] \<and>
   getExchangeRates (sampleEnv twoHours (Some xauData)) emptyStore =
     (Inr \<lparr>base = ''USD'', rates = [], timestamp = 1700007000000\<rparr>,
      emptyStore\<lparr>providerCalls := 1\<rparr>) \<and>
   convertCurrency (sampleEnv twoHours (Some xauData)) emptyStore 7 ''USD'' ''EUR'' 100 =
     (Inl Exchange_rate_not_available, emptyStore\<lparr>providerCalls := 1\<rparr>)"
proof -
  let ?e = "sampleEnv twoHours (Some xauData)"
  have db: "getExchangeRatesFromDb ?e emptyStore = Inr []"
    by (simp add: getExchangeRatesFromDb_def sampleEnv_def emptyStore_def)
  have r: "response ?e = Some xauData"
    by (simp add: sampleEnv_def)
  have fl: "filterLoop (data_rates xauData) supportedCurrencies [] = []"
    by (simp add: xauData_def supportedCurrencies_def)
  have sup: "''USD'' \<in> set supportedCurrencies \<and> ''EUR'' \<in> set supportedCurrencies"
    by (simp add: supportedCurrencies_def)
  show ?thesis
    using getExchangeRates_no_supported_rates [OF db _ r fl] db r fl sup
    by (simp add: xauData_def emptyStore_def)
qed

text \<open>An accepted upsert leaves its row in the table, and the later upserts of the batch,
  which are for other currencies, keep it.\<close>

lemma upsert_new:
  "\<lparr>er_baseCurrency = b, er_currency = c, er_rate = v, er_lastUpdated = t\<rparr> \<in> set (upsert b c v t tbl)"
  by (induction tbl) auto

lemma upsert_keeps:
  "r \<in> set tbl \<Longrightarrow> er_currency r \<noteq> c \<Longrightarrow> r \<in> set (upsert b c v t tbl)"
  by (induction tbl) auto

lemma upsertAll_keeps:
  "r \<in> set tbl \<Longrightarrow> er_currency r \<notin> fst ` set es \<Longrightarrow> r \<in> set (upsertAll e b t es tbl)"
  by (induction es arbitrary: tbl) (auto simp: upsert_keeps)

lemma upsertAll_new:
  assumes "distinct (map fst es)" and "(c, v) \<in> set es" and "\<not> upsertRejects e c"
  shows "\<lparr>er_baseCurrency = b, er_currency = c, er_rate = v, er_lastUpdated = t\<rparr>
           \<in> set (upsertAll e b t es tbl)"
  using assms
proof (induction es arbitrary: tbl)
  case Nil
  then show ?case by simp
next
  case (Cons p es)
  obtain c' v' where p: "p = (c', v')" by (cases p)
  show ?case
  proof (cases "(c, v) = (c', v')")
    case True
    with Cons.prems p have "c \<notin> fst ` set es" by auto
    then show ?thesis
      using True p Cons.prems(3) by (simp add: upsertAll_keeps upsert_new)
  next
    case False
    with Cons.prems p have "(c, v) \<in> set es" "distinct (map fst es)" by auto
    then show ?thesis
      using Cons.IH Cons.prems(3) p by simp
  qed
qed

lemma distinct_filterLoop:
  "distinct (map fst acc) \<Longrightarrow> distinct (map fst (filterLoop rs cs acc))"
  by (induction cs arbitrary: acc) (auto simp: distinct_update split: option.splits)

text \<open>When the provider's base is the fixed base, every rate of a successful fetch is
  in a snapshot that the next store read returns.\<close>

lemma fetchAndStoreExchangeRates_visible:
  assumes "response e = Some d"
    and "data_base d = baseCurrency"
    and "fetchAndStoreExchangeRates e w = (Inr res, w')"
    and "(c, v) \<in> set (rates res)"
    and "\<not> findManyRejects e'"
  shows "\<exists>rows. getExchangeRatesFromDb e' w' = Inr rows \<and>
           \<lparr>er_baseCurrency = baseCurrency, er_currency = c, er_rate = v,
            er_lastUpdated = data_timestamp d * 1000\<rparr> \<in> set rows"
proof -
  let ?es = "filterLoop (data_rates d) supportedCurrencies []"
  from assms(1,3) have ok: "\<not> list_ex (\<lambda>(c, v). upsertRejects e c) ?es"
    and res: "rates res = ?es"
    and w': "db_exchangeRate w' = upsertAll e (data_base d) (data_timestamp d * 1000) ?es (db_exchangeRate w)"
    by (auto simp: fetchAndStoreExchangeRates_def Let_def split: if_splits)
  from ok res assms(4) have "\<not> upsertRejects e c"
    by (auto simp: list_ex_iff)
  moreover have "distinct (map fst ?es)"
    by (rule distinct_filterLoop) simp
  ultimately have "\<lparr>er_baseCurrency = data_base d, er_currency = c, er_rate = v,
            er_lastUpdated = data_timestamp d * 1000\<rparr> \<in> set (db_exchangeRate w')"
    using res assms(4) w' by (simp add: upsertAll_new)
  then show ?thesis
    using assms(2,5) by (simp add: getExchangeRatesFromDb_def)
qed

text \<open>
  Claim C7, evaluated where it fails. The lemma above needs the provider's base to be
  the fixed one, and the source does not check that: the upserts use \<^verbatim>\<open>base\<close> of the provider's body as
  \<^verbatim>\<open>baseCurrency\<close>, the store read uses the fixed \<open>baseCurrency\<close> of the service. On an
  empty store and a body with base \<^verbatim>\<open>EUR\<close> the fetch succeeds and creates two snapshots
  with \<^verbatim>\<open>baseCurrency = EUR\<close>, and the store read that follows returns no snapshot.
\<close>

theorem fetchAndStoreExchangeRates_foreign_base:
  "getExchangeRates (sampleEnv twoHours (Some eurData)) emptyStore =
     (Inr \<lparr>base = ''EUR'', rates = [(''USD'', 27 / 25), (''EUR'', 1)], timestamp = 1700007000000\<rparr>,
      emptyStore\<lparr>db_exchangeRate :=
         [\<lparr>er_baseCurrency = ''EUR'', er_currency = ''USD'', er_rate = 27 / 25,
           er_lastUpdated = 1700007000000\<rparr>,
          \<lparr>er_baseCurrency = ''EUR'', er_currency = ''EUR'', er_rate = 1,
           er_lastUpdated = 1700007000000\<rparr>],
        providerCalls := 1\<rparr>) \<and>
   baseCurrency = ''USD'' \<and>
   getExchangeRatesFromDb (sampleEnv twoHours (Some eurData))
     (snd (getExchangeRates (sampleEnv twoHours (Some eurData)) emptyStore)) = Inr []"
  by (simp add: getExchangeRates_def getExchangeRatesFromDb_def fetchAndStoreExchangeRates_def
      Let_def sampleEnv_def emptyStore_def eurData_def supportedCurrencies_def baseCurrency_def)

subsection \<open>The transaction listing\<close>

text \<open>A call of \<open>convertCurrency\<close> leaves the transaction table as it is or appends one
  row of the calling user, so it does not change the listing of another user.\<close>

lemma convertCurrency_transaction_cases:
  "db_transaction (snd (convertCurrency e w userId fromCurrency toCurrency amount)) = db_transaction w \<or>
   (\<exists>t. db_transaction (snd (convertCurrency e w userId fromCurrency toCurrency amount)) =
          db_transaction w @ [t] \<and> tx_userId t = userId)"
proof (cases "convertCurrency e w userId fromCurrency toCurrency amount")
  case (Pair r w'')
  have g: "db_transaction (snd (getExchangeRates e w)) = db_transaction w"
    using getExchangeRates_transaction [of e w] by simp
  show ?thesis
  proof (cases r)
    case (Inl err)
    obtain r1 w1 where gw: "getExchangeRates e w = (r1, w1)"
      by (cases "getExchangeRates e w")
    from Pair Inl g gw have "db_transaction w'' = db_transaction w"
      by (auto simp: convertCurrency_def conversion_def createTransaction_def Let_def
          split: if_splits sum.splits option.splits)
    with Pair show ?thesis by simp
  next
    case (Inr res)
    with Pair have "convertCurrency e w userId fromCurrency toCurrency amount = (Inr res, w'')"
      by simp
    then obtain rs w1 fromRate toRate t where gw: "getExchangeRates e w = (Inr rs, w1)"
      and t: "t = \<lparr>tx_id = transactionSeq w1 + 1, tx_userId = userId,
          tx_fromCurrency = fromCurrency, tx_toCurrency = toCurrency,
          tx_amount = amount, tx_convertedAmount = amount / fromRate * toRate,
          tx_rate = toRate / fromRate,
          tx_createdAt = dbNow e, tx_updatedAt = dbNow e\<rparr>"
      and w'': "w'' = w1\<lparr>db_transaction := db_transaction w1 @ [t], transactionSeq := transactionSeq w1 + 1\<rparr>"
      by (rule convertCurrency_Inr)
    from t have "tx_userId t = userId" by simp
    moreover from g gw w'' have "db_transaction w'' = db_transaction w @ [t]" by simp
    ultimately have "\<exists>t. db_transaction w'' = db_transaction w @ [t] \<and> tx_userId t = userId"
      by blast
    with Pair show ?thesis by simp
  qed
qed

lemma getUserTransactions_convertCurrency_other:
  assumes "userId \<noteq> u"
  shows "getUserTransactions (snd (convertCurrency e w userId fromCurrency toCurrency amount)) u =
         getUserTransactions w u"
  using convertCurrency_transaction_cases [of e w userId fromCurrency toCurrency amount] assms
  by (auto simp: getUserTransactions_def)

text \<open>
  Claim C9. After any sequence of conversions by any users, in any environments and
  from any world, every row of the listing of user \<open>u\<close> has \<open>userId = u\<close>; and a sequence
  in which no conversion is by \<open>u\<close> leaves the listing of \<open>u\<close> as it was.
\<close>

theorem getUserTransactions_only_own:
  "(\<forall>t\<in>set (getUserTransactions (conversions w calls) u). tx_userId t = u) \<and>
   ((\<forall>c\<in>set calls. call_userId c \<noteq> u) \<longrightarrow>
      getUserTransactions (conversions w calls) u = getUserTransactions w u)"
proof
  show "\<forall>t\<in>set (getUserTransactions (conversions w calls) u). tx_userId t = u"
    by (simp add: getUserTransactions_def)
  show "(\<forall>c\<in>set calls. call_userId c \<noteq> u) \<longrightarrow>
      getUserTransactions (conversions w calls) u = getUserTransactions w u"
  proof (induction calls arbitrary: w)
    case Nil
    show ?case by simp
  next
    case (Cons c cs)
    show ?case
      using Cons.IH getUserTransactions_convertCurrency_other by simp
  qed
qed

theorem getUserTransactions_only_own_witness:
  "getUserTransactions
     (conversions sampleStore
        [\<lparr>call_env = sampleEnv halfHour None, call_userId = 7, call_fromCurrency = ''USD'',
          call_toCurrency = ''EUR'', call_amount = 100\<rparr>,
         \<lparr>call_env = sampleEnv halfHour None, call_userId = 8, call_fromCurrency = ''EUR'',
          call_toCurrency = ''USD'', call_amount = 93\<rparr>]) 7 =
     [\<lparr>tx_id = 1, tx_userId = 7, tx_fromCurrency = ''USD'', tx_toCurrency = ''EUR'',
       tx_amount = 100, tx_convertedAmount = 93, tx_rate = 93 / 100,
       tx_createdAt = sampleTime + halfHour + 5, tx_updatedAt = sampleTime + halfHour + 5\<rparr>] \<and>
   list_all (\<lambda>t. tx_userId t = 7) (getUserTransactions
     (conversions sampleStore
        [\<lparr>call_env = sampleEnv halfHour None, call_userId = 7, call_fromCurrency = ''USD'',
          call_toCurrency = ''EUR'', call_amount = 100\<rparr>,
         \<lparr>call_env = sampleEnv halfHour None, call_userId = 8, call_fromCurrency = ''EUR'',
          call_toCurrency = ''USD'', call_amount = 93\<rparr>]) 7) \<and>
   getUserTransactions
     (conversions sampleStore
        [\<lparr>call_env = sampleEnv halfHour None, call_userId = 7, call_fromCurrency = ''USD'',
          call_toCurrency = ''EUR'', call_amount = 100\<rparr>,
         \<lparr>call_env = sampleEnv halfHour None, call_userId = 8, call_fromCurrency = ''EUR'',
          call_toCurrency = ''USD'', call_amount = 93\<rparr>]) 9 = getUserTransactions sampleStore 9"
proof -
  let ?calls = "[\<lparr>call_env = sampleEnv halfHour None, call_userId = 7, call_fromCurrency = ''USD'',
          call_toCurrency = ''EUR'', call_amount = 100\<rparr>,
         \<lparr>call_env = sampleEnv halfHour None, call_userId = 8, call_fromCurrency = ''EUR'',
          call_toCurrency = ''USD'', call_amount = 93\<rparr>]"
  have l: "getUserTransactions (conversions sampleStore ?calls) 7 =
     [\<lparr>tx_id = 1, tx_userId = 7, tx_fromCurrency = ''USD'', tx_toCurrency = ''EUR'',
       tx_amount = 100, tx_convertedAmount = 93, tx_rate = 93 / 100,
       tx_createdAt = sampleTime + halfHour + 5, tx_updatedAt = sampleTime + halfHour + 5\<rparr>]"
    by (simp add: getUserTransactions_def convertCurrency_def supportedCurrencies_def
        getExchangeRates_def getExchangeRatesFromDb_def formatExchangeRates_def conversion_def
        createTransaction_def Let_def sampleEnv_def sampleStore_def halfHour_def
        baseCurrency_def cacheExpirationTime_def)
  have o: "\<forall>c\<in>set ?calls. call_userId c \<noteq> 9"
    by simp
  show ?thesis
    using getUserTransactions_only_own [of sampleStore ?calls 7]
      getUserTransactions_only_own [of sampleStore ?calls 9] l o
    unfolding list_all_iff by blast
qed

end
